theory Spec2Isabelle
  imports Main "HOL-Library.Monad_Syntax"
begin

section \<open>Schemas (app/schemas/notification.py)\<close>

text \<open>
  The two string enumerations of the service.  \<open>DeliveryChannel_value\<close> and
  \<open>RoleType_value\<close> are the \<^verbatim>\<open>.value\<close> of a member; the \<open>_of_value\<close>
  functions are the enum lookup by value that validation performs, with \<open>None\<close> for a
  string that is no member.
\<close>

datatype DeliveryChannel = EMAIL | SMS | PUSH | IN_APP

datatype RoleType = ISSUER | LEARNER | EMPLOYER

fun DeliveryChannel_value :: "DeliveryChannel \<Rightarrow> string" where
  "DeliveryChannel_value EMAIL = ''email''"
| "DeliveryChannel_value SMS = ''sms''"
| "DeliveryChannel_value PUSH = ''push''"
| "DeliveryChannel_value IN_APP = ''in_app''"

fun RoleType_value :: "RoleType \<Rightarrow> string" where
  "RoleType_value ISSUER = ''issuer''"
| "RoleType_value LEARNER = ''learner''"
| "RoleType_value EMPLOYER = ''employer''"

definition DeliveryChannel_of_value :: "string \<Rightarrow> DeliveryChannel option" where
  "DeliveryChannel_of_value s =
     (if s = ''email'' then Some EMAIL
      else if s = ''sms'' then Some SMS
      else if s = ''push'' then Some PUSH
      else if s = ''in_app'' then Some IN_APP
      else None)"

definition RoleType_of_value :: "string \<Rightarrow> RoleType option" where
  "RoleType_of_value s =
     (if s = ''issuer'' then Some ISSUER
      else if s = ''learner'' then Some LEARNER
      else if s = ''employer'' then Some EMPLOYER
      else None)"

text \<open>
  JSON documents.  The free-form \<^verbatim>\<open>metadata: Dict[str, Any]\<close> of a payload holds the
  values a JSON document can hold; an object is the insertion-ordered list of its
  members.  Numbers are integers: floating point is outside this model.
\<close>

datatype json =
    JNull
  | JBool bool
  | JInt int
  | JStr string
  | JArr "json list"
  | JObj "(string \<times> json) list"

text \<open>
  A \<^verbatim>\<open>datetime\<close> without time zone, as \<^verbatim>\<open>datetime.utcnow\<close> returns it.
\<close>

record datetime =
  year :: nat
  month :: nat
  day :: nat
  hour :: nat
  minute :: nat
  second :: nat
  microsecond :: nat

text \<open>Exceptions of the service, as values.\<close>

datatype error =
    ValueError string
  | ValidationError string
  | JSONDecodeError
  | ConnectionError string
  | SendError DeliveryChannel

record NotificationPayload =
  subject :: "string option"
  body :: "string option"
  metadata :: "(string \<times> json) list"

record NotificationRequest =
  event_type :: string
  actor_role :: RoleType
  recipients :: "string list"
  recipient_roles :: "RoleType list option"
  channels :: "DeliveryChannel list option"
  subject :: "string option"
  body :: "string option"
  metadata :: "(string \<times> json) list"

record NotificationMessage =
  event_type :: string
  source :: string
  actor_role :: RoleType
  recipient_roles :: "RoleType list"
  recipients :: "string list"
  channels :: "DeliveryChannel list option"
  payload :: NotificationPayload
  created_at :: datetime

text \<open>
  Python truthiness of an \<^verbatim>\<open>Optional[List[...]]\<close>: \<^verbatim>\<open>None\<close> and the empty list are
  falsy.
\<close>

fun truthy :: "'a list option \<Rightarrow> bool" where
  "truthy None = False"
| "truthy (Some []) = False"
| "truthy (Some (x # xs)) = True"

text \<open>
  \<^verbatim>\<open>xs or ys\<close> for an optional list on the left.
\<close>

fun or_else :: "'a list option \<Rightarrow> 'a list \<Rightarrow> 'a list" where
  "or_else (Some (x # xs)) ys = x # xs"
| "or_else _ ys = ys"

text \<open>
  The constructor \<^verbatim>\<open>NotificationMessage(...)\<close>: the fields are stored and then the
  \<^verbatim>\<open>model_validator(mode="after")\<close> \<^verbatim>\<open>validate_roles\<close> runs.  Its \<^verbatim>\<open>ValueError\<close> reaches
  the caller as pydantic's \<^verbatim>\<open>ValidationError\<close>.  There is no validator on \<open>channels\<close>.
\<close>

definition validate_roles :: "NotificationMessage \<Rightarrow> error + NotificationMessage" where
  "validate_roles self =
     (if NotificationMessage.recipient_roles self = []
      then Inl (ValidationError ''NotificationMessage requires at least one recipient role.'')
      else Inr self)"

definition NotificationMessage_init ::
  "string \<Rightarrow> string \<Rightarrow> RoleType \<Rightarrow> RoleType list \<Rightarrow> string list \<Rightarrow>
   DeliveryChannel list option \<Rightarrow> NotificationPayload \<Rightarrow> datetime \<Rightarrow>
   error + NotificationMessage" where
  "NotificationMessage_init et src ar rr rs cs p ts =
     validate_roles
       \<lparr> NotificationMessage.event_type = et, source = src,
         NotificationMessage.actor_role = ar,
         NotificationMessage.recipient_roles = rr,
         NotificationMessage.recipients = rs,
         NotificationMessage.channels = cs, payload = p, created_at = ts \<rparr>"

text \<open>
  \<^verbatim>\<open>NotificationRequest.to_message\<close>.  \<open>now\<close> is the value \<^verbatim>\<open>datetime.utcnow\<close> returns
  when the default factory of \<open>created_at\<close> runs.
\<close>

definition to_message ::
  "NotificationRequest \<Rightarrow> string \<Rightarrow> DeliveryChannel list option \<Rightarrow> RoleType list option \<Rightarrow>
   datetime \<Rightarrow> error + NotificationMessage" where
  "to_message self src chans roles now =
     (let resolved_channels =
            (if truthy chans then chans
             else if truthy (NotificationRequest.channels self)
                  then NotificationRequest.channels self else None);
          resolved_roles =
            (if truthy roles then the roles
             else or_else (NotificationRequest.recipient_roles self) [])
      in NotificationMessage_init
           (NotificationRequest.event_type self) src
           (NotificationRequest.actor_role self)
           resolved_roles
           (NotificationRequest.recipients self)
           resolved_channels
           \<lparr> NotificationPayload.subject = NotificationRequest.subject self,
             NotificationPayload.body = NotificationRequest.body self,
             NotificationPayload.metadata = NotificationRequest.metadata self \<rparr>
           now)"

section \<open>Rule engine (app/services/rule\_engine.py)\<close>

record NotificationRule =
  event_type :: string
  default_channels :: "DeliveryChannel list"
  target_roles :: "RoleType list"
  description :: string

text \<open>
  A rule table is a Python dict from event type to rule, kept as the list of its items
  in insertion order; \<open>map_of\<close> is the lookup.
\<close>

type_synonym rule_table = "(string \<times> NotificationRule) list"

definition DEFAULT_RULES :: rule_table where
  "DEFAULT_RULES =
     [(''credential.issued'',
       \<lparr> NotificationRule.event_type = ''credential.issued'',
         default_channels = [EMAIL, IN_APP], target_roles = [LEARNER],
         description = ''Learner receives notification when issuer issues a credential.'' \<rparr>),
      (''credential.updated'',
       \<lparr> NotificationRule.event_type = ''credential.updated'',
         default_channels = [EMAIL, IN_APP], target_roles = [LEARNER],
         description = ''Learner notified when credential metadata changes.'' \<rparr>),
      (''credential.revoked'',
       \<lparr> NotificationRule.event_type = ''credential.revoked'',
         default_channels = [EMAIL, IN_APP], target_roles = [LEARNER],
         description = ''Learner alerted when a credential is revoked.'' \<rparr>),
      (''profile.viewed'',
       \<lparr> NotificationRule.event_type = ''profile.viewed'',
         default_channels = [IN_APP], target_roles = [LEARNER],
         description = ''Learner informed when an employer views their profile.'' \<rparr>),
      (''employer.requested_verification'',
       \<lparr> NotificationRule.event_type = ''employer.requested_verification'',
         default_channels = [EMAIL, IN_APP], target_roles = [ISSUER],
         description = ''Issuer notified when employer requests verification.'' \<rparr>)]"

record NotificationRuleEngine =
  rules :: rule_table

text \<open>
  \<^verbatim>\<open>self._rules = rules or DEFAULT_RULES\<close>: an absent or empty table is replaced by the
  default one.
\<close>

definition NotificationRuleEngine_init :: "rule_table option \<Rightarrow> NotificationRuleEngine" where
  "NotificationRuleEngine_init rs = \<lparr> rules = or_else rs DEFAULT_RULES \<rparr>"

definition get_rule :: "NotificationRuleEngine \<Rightarrow> string \<Rightarrow> NotificationRule option" where
  "get_rule self et = map_of (rules self) et"

text \<open>
  \<^verbatim>\<open>list(dict.fromkeys(xs))\<close>: the keys are inserted one by one, a key already present
  keeps its place.
\<close>

fun fromkeys_into :: "'a list \<Rightarrow> 'a list \<Rightarrow> 'a list" where
  "fromkeys_into keys [] = keys"
| "fromkeys_into keys (x # xs) =
     fromkeys_into (if x \<in> set keys then keys else keys @ [x]) xs"

definition dict_fromkeys :: "'a list \<Rightarrow> 'a list" where
  "dict_fromkeys xs = fromkeys_into [] xs"

text \<open>
  A \<^verbatim>\<open>NotificationRule\<close> is a plain dataclass instance, always truthy, so \<^verbatim>\<open>if rule\<close>
  tests that the lookup found one.
\<close>

definition resolve_channels ::
  "NotificationRuleEngine \<Rightarrow> NotificationRequest \<Rightarrow> DeliveryChannel list" where
  "resolve_channels self request =
     (if truthy (NotificationRequest.channels request)
      then dict_fromkeys (the (NotificationRequest.channels request))
      else case get_rule self (NotificationRequest.event_type request) of
             Some rule \<Rightarrow> default_channels rule
           | None \<Rightarrow> [IN_APP])"

definition resolve_recipient_roles ::
  "NotificationRuleEngine \<Rightarrow> NotificationRequest \<Rightarrow> RoleType list" where
  "resolve_recipient_roles self request =
     (if truthy (NotificationRequest.recipient_roles request)
      then dict_fromkeys (the (NotificationRequest.recipient_roles request))
      else case get_rule self (NotificationRequest.event_type request) of
             Some rule \<Rightarrow> target_roles rule
           | None \<Rightarrow> [])"

definition describe_event :: "NotificationRuleEngine \<Rightarrow> string \<Rightarrow> string option" where
  "describe_event self et =
     (case get_rule self et of Some rule \<Rightarrow> Some (description rule) | None \<Rightarrow> None)"

text \<open>
  The specification's wording of step 1, "deduplicated while preserving first-seen
  order", written on its own: the head is kept and every later copy of it is dropped.
\<close>

fun dedup_first_seen :: "'a list \<Rightarrow> 'a list" where
  "dedup_first_seen [] = []"
| "dedup_first_seen (x # xs) = x # dedup_first_seen (removeAll x xs)"

section \<open>Configuration (app/core/config.py)\<close>

text \<open>The settings the modelled operations read, with their declared defaults.\<close>

record Settings =
  app_name :: string
  rabbitmq_routing_key :: string
  rabbitmq_publish_routing_key :: string
  rabbitmq_requeue_on_error :: bool

definition default_settings :: Settings where
  "default_settings =
     \<lparr> app_name = ''CredApp Notification Service'',
       rabbitmq_routing_key = ''notifications.*'',
       rabbitmq_publish_routing_key = ''notifications.broadcast'',
       rabbitmq_requeue_on_error = True \<rparr>"

section \<open>Orchestrator (app/services/orchestrator.py)\<close>

record NotificationOrchestrator =
  rule_engine :: NotificationRuleEngine

definition no_roles_message :: "string \<Rightarrow> string" where
  "no_roles_message et =
     ''No recipient roles resolved for event '' @ CHR 0x27 # et @ CHR 0x27 #
     ''. Provide recipient_roles explicitly or register a rule.''"

text \<open>
  \<^verbatim>\<open>prepare_message\<close>.  The module-level \<^verbatim>\<open>settings\<close> and the clock are arguments.  The
  assignment \<^verbatim>\<open>message.channels = [DeliveryChannel.IN_APP]\<close> is the record update.
\<close>

definition prepare_message ::
  "NotificationOrchestrator \<Rightarrow> Settings \<Rightarrow> NotificationRequest \<Rightarrow> datetime \<Rightarrow>
   error + NotificationMessage" where
  "prepare_message self settings request now =
     (let chans = resolve_channels (rule_engine self) request;
          roles = resolve_recipient_roles (rule_engine self) request
      in if roles = []
         then Inl (ValueError (no_roles_message (NotificationRequest.event_type request)))
         else case to_message request (app_name settings) (Some chans) (Some roles) now of
                Inl e \<Rightarrow> Inl e
              | Inr message \<Rightarrow>
                  Inr (if \<not> truthy (NotificationMessage.channels message)
                       then message\<lparr>NotificationMessage.channels := Some [IN_APP]\<rparr>
                       else message))"

section \<open>Wire format\<close>

text \<open>
  \<^verbatim>\<open>datetime\<close> objects satisfy the calendar's ranges.
\<close>

definition leap_year :: "nat \<Rightarrow> bool" where
  "leap_year y = (y mod 4 = 0 \<and> (y mod 100 \<noteq> 0 \<or> y mod 400 = 0))"

definition days_in_month :: "nat \<Rightarrow> nat \<Rightarrow> nat" where
  "days_in_month y m =
     (if m = 2 then (if leap_year y then 29 else 28)
      else if m = 4 \<or> m = 6 \<or> m = 9 \<or> m = 11 then 30 else 31)"

definition valid_datetime :: "datetime \<Rightarrow> bool" where
  "valid_datetime t =
     (1 \<le> year t \<and> year t \<le> 9999 \<and> 1 \<le> month t \<and> month t \<le> 12 \<and>
      1 \<le> day t \<and> day t \<le> days_in_month (year t) (month t) \<and>
      hour t < 24 \<and> minute t < 60 \<and> second t < 60 \<and> microsecond t < 1000000)"

text \<open>
  The ISO 8601 text of a \<^verbatim>\<open>datetime\<close> as the JSON serializer writes it:
  \<^verbatim>\<open>YYYY-MM-DDTHH:MM:SS\<close>, followed by \<^verbatim>\<open>.ffffff\<close> when the microsecond is not zero.
\<close>

definition decimal_digits :: string where
  "decimal_digits = ''0123456789''"

definition digit_char :: "nat \<Rightarrow> char" where
  "digit_char d = decimal_digits ! d"

definition digit_of_char :: "char \<Rightarrow> nat option" where
  "digit_of_char c = map_of (zip decimal_digits [0, 1, 2, 3, 4, 5, 6, 7, 8, 9]) c"

text \<open>\<open>zero_padded k v\<close> is \<open>v\<close> in \<open>k\<close> decimal digits; the digit is \<open>v mod 10 < 10\<close>.\<close>

fun zero_padded :: "nat \<Rightarrow> nat \<Rightarrow> string" where
  "zero_padded 0 v = []"
| "zero_padded (Suc k) v = zero_padded k (v div 10) @ [digit_char (v mod 10)]"

definition isoformat :: "datetime \<Rightarrow> string" where
  "isoformat t =
     zero_padded 4 (year t) @ CHR ''-'' # zero_padded 2 (month t) @ CHR ''-'' #
     zero_padded 2 (day t) @ CHR ''T'' # zero_padded 2 (hour t) @ CHR '':'' #
     zero_padded 2 (minute t) @ CHR '':'' # zero_padded 2 (second t) @
     (if microsecond t = 0 then [] else CHR ''.'' # zero_padded 6 (microsecond t))"

text \<open>
  Reading that text back.  Only the form \<open>isoformat\<close> writes is modelled; the other
  spellings a validator may accept (numbers as timestamps, offsets, shorter
  fractions) count as invalid here.
\<close>

fun digits_value :: "nat \<Rightarrow> string \<Rightarrow> nat option" where
  "digits_value acc [] = Some acc"
| "digits_value acc (c # cs) =
     (case digit_of_char c of
        None \<Rightarrow> None
      | Some d \<Rightarrow> digits_value (10 * acc + d) cs)"

definition take_digits :: "nat \<Rightarrow> string \<Rightarrow> (nat \<times> string) option" where
  "take_digits k s =
     (if length s < k then None
      else case digits_value 0 (take k s) of
             None \<Rightarrow> None
           | Some v \<Rightarrow> Some (v, drop k s))"

fun expect :: "char \<Rightarrow> string \<Rightarrow> string option" where
  "expect c [] = None"
| "expect c (x # xs) = (if x = c then Some xs else None)"

definition fraction :: "string \<Rightarrow> nat option" where
  "fraction s =
     (if s = [] then Some 0
      else do {
        s1 \<leftarrow> expect (CHR ''.'') s;
        (us, s2) \<leftarrow> take_digits 6 s1;
        if s2 = [] then Some us else None
      })"

definition fromisoformat :: "string \<Rightarrow> datetime option" where
  "fromisoformat s =
     do {
       (y, s1) \<leftarrow> take_digits 4 s;
       s2 \<leftarrow> expect (CHR ''-'') s1;
       (mo, s3) \<leftarrow> take_digits 2 s2;
       s4 \<leftarrow> expect (CHR ''-'') s3;
       (d, s5) \<leftarrow> take_digits 2 s4;
       s6 \<leftarrow> expect (CHR ''T'') s5;
       (h, s7) \<leftarrow> take_digits 2 s6;
       s8 \<leftarrow> expect (CHR '':'') s7;
       (mi, s9) \<leftarrow> take_digits 2 s8;
       s10 \<leftarrow> expect (CHR '':'') s9;
       (sec, s11) \<leftarrow> take_digits 2 s10;
       us \<leftarrow> fraction s11;
       (let t = \<lparr> year = y, month = mo, day = d, hour = h, minute = mi,
                  second = sec, microsecond = us \<rparr>
        in if valid_datetime t then Some t else None)
     }"

text \<open>
  The body of a broker message.  A body is either the UTF-8 text of a JSON document,
  kept as the document it spells, or some other byte string; \<^verbatim>\<open>json.loads\<close> of the
  decoded body returns the document in the first case and raises in the second.
\<close>

datatype bytes = Utf8Json json | OtherBytes string

definition json_loads :: "bytes \<Rightarrow> error + json" where
  "json_loads b = (case b of Utf8Json j \<Rightarrow> Inr j | OtherBytes _ \<Rightarrow> Inl JSONDecodeError)"

text \<open>
  \<^verbatim>\<open>NotificationMessage.model_dump_json()\<close>: every field in declaration order, enum
  members by value, an absent optional as \<^verbatim>\<open>null\<close>, the timestamp as ISO text.
\<close>

definition dump_optional_str :: "string option \<Rightarrow> json" where
  "dump_optional_str v = (case v of None \<Rightarrow> JNull | Some s \<Rightarrow> JStr s)"

definition payload_dump :: "NotificationPayload \<Rightarrow> json" where
  "payload_dump p =
     JObj [(''subject'', dump_optional_str (NotificationPayload.subject p)),
           (''body'', dump_optional_str (NotificationPayload.body p)),
           (''metadata'', JObj (NotificationPayload.metadata p))]"

definition model_dump_json :: "NotificationMessage \<Rightarrow> json" where
  "model_dump_json m =
     JObj [(''event_type'', JStr (NotificationMessage.event_type m)),
           (''source'', JStr (source m)),
           (''actor_role'', JStr (RoleType_value (NotificationMessage.actor_role m))),
           (''recipient_roles'',
              JArr (map (\<lambda>r. JStr (RoleType_value r)) (NotificationMessage.recipient_roles m))),
           (''recipients'', JArr (map JStr (NotificationMessage.recipients m))),
           (''channels'',
              (case NotificationMessage.channels m of
                 None \<Rightarrow> JNull
               | Some cs \<Rightarrow> JArr (map (\<lambda>c. JStr (DeliveryChannel_value c)) cs))),
           (''payload'', payload_dump (payload m)),
           (''created_at'', JStr (isoformat (created_at m)))]"

text \<open>
  \<^verbatim>\<open>NotificationMessage.model_validate(payload)\<close> on a decoded document.  Each field
  validator returns \<open>None\<close> for an input of the wrong shape.  Unknown members are
  ignored; \<open>channels\<close>, \<open>payload\<close> and \<open>created_at\<close> have defaults (\<open>now\<close> stands for
  \<^verbatim>\<open>datetime.utcnow()\<close>); the after-validator \<open>validate_roles\<close> runs last.
\<close>

fun as_str :: "json \<Rightarrow> string option" where
  "as_str (JStr s) = Some s"
| "as_str _ = None"

fun as_role :: "json \<Rightarrow> RoleType option" where
  "as_role (JStr s) = RoleType_of_value s"
| "as_role _ = None"

fun as_channel :: "json \<Rightarrow> DeliveryChannel option" where
  "as_channel (JStr s) = DeliveryChannel_of_value s"
| "as_channel _ = None"

fun as_list :: "(json \<Rightarrow> 'a option) \<Rightarrow> json \<Rightarrow> 'a list option" where
  "as_list f (JArr xs) = those (map f xs)"
| "as_list f _ = None"

fun as_optional_str :: "json option \<Rightarrow> string option option" where
  "as_optional_str None = Some None"
| "as_optional_str (Some JNull) = Some None"
| "as_optional_str (Some (JStr s)) = Some (Some s)"
| "as_optional_str (Some _) = None"

fun as_optional_channels :: "json option \<Rightarrow> DeliveryChannel list option option" where
  "as_optional_channels None = Some None"
| "as_optional_channels (Some JNull) = Some None"
| "as_optional_channels (Some j) = map_option Some (as_list as_channel j)"

fun as_metadata :: "json option \<Rightarrow> (string \<times> json) list option" where
  "as_metadata None = Some []"
| "as_metadata (Some (JObj kv)) = Some kv"
| "as_metadata (Some _) = None"

fun as_payload :: "json option \<Rightarrow> NotificationPayload option" where
  "as_payload None =
     Some \<lparr> NotificationPayload.subject = None, NotificationPayload.body = None,
            NotificationPayload.metadata = [] \<rparr>"
| "as_payload (Some (JObj kv)) =
     do {
       s \<leftarrow> as_optional_str (map_of kv ''subject'');
       b \<leftarrow> as_optional_str (map_of kv ''body'');
       md \<leftarrow> as_metadata (map_of kv ''metadata'');
       Some \<lparr> NotificationPayload.subject = s, NotificationPayload.body = b,
              NotificationPayload.metadata = md \<rparr>
     }"
| "as_payload (Some _) = None"

fun as_datetime :: "datetime \<Rightarrow> json option \<Rightarrow> datetime option" where
  "as_datetime now None = Some now"
| "as_datetime now (Some (JStr s)) = fromisoformat s"
| "as_datetime now (Some _) = None"

definition validate_fields :: "datetime \<Rightarrow> (string \<times> json) list \<Rightarrow> NotificationMessage option" where
  "validate_fields now kv =
     do {
       et \<leftarrow> Option.bind (map_of kv ''event_type'') as_str;
       src \<leftarrow> Option.bind (map_of kv ''source'') as_str;
       ar \<leftarrow> Option.bind (map_of kv ''actor_role'') as_role;
       rr \<leftarrow> Option.bind (map_of kv ''recipient_roles'') (as_list as_role);
       rs \<leftarrow> Option.bind (map_of kv ''recipients'') (as_list as_str);
       cs \<leftarrow> as_optional_channels (map_of kv ''channels'');
       p \<leftarrow> as_payload (map_of kv ''payload'');
       ts \<leftarrow> as_datetime now (map_of kv ''created_at'');
       Some \<lparr> NotificationMessage.event_type = et, source = src,
              NotificationMessage.actor_role = ar,
              NotificationMessage.recipient_roles = rr,
              NotificationMessage.recipients = rs,
              NotificationMessage.channels = cs, payload = p, created_at = ts \<rparr>
     }"

definition model_validate :: "datetime \<Rightarrow> json \<Rightarrow> error + NotificationMessage" where
  "model_validate now j =
     (case j of
        JObj kv \<Rightarrow>
          (case validate_fields now kv of
             None \<Rightarrow> Inl (ValidationError ''validation error for NotificationMessage'')
           | Some m \<Rightarrow> validate_roles m)
      | _ \<Rightarrow> Inl (ValidationError ''validation error for NotificationMessage''))"

section \<open>Connection manager (app/messaging/connection.py)\<close>

text \<open>
  The broker message \<^verbatim>\<open>aio_pika.Message\<close> as the publisher builds it.
\<close>

record Message =
  body :: bytes
  content_type :: string
  delivery_mode :: nat
  headers :: "(string \<times> string) list"

text \<open>
  The broker as the connection manager sees it.  \<open>reachable\<close> says whether declaring
  the exchange and publishing through it succeed; \<open>published\<close> lists what the
  exchange accepted, each message with its routing key, oldest first; \<open>interactions\<close>
  counts the calls that went to the broker, whatever their outcome.
\<close>

record broker =
  reachable :: bool
  published :: "(Message \<times> string) list"
  interactions :: nat

record RabbitMQConnectionManager =
  routing_key :: string

text \<open>
  \<^verbatim>\<open>RabbitMQConnectionManager.publish\<close>: \<^verbatim>\<open>get_exchange\<close>, then
  \<^verbatim>\<open>exchange.publish(message, routing_key=routing_key or self._routing_key)\<close>.
\<close>

definition cm_publish ::
  "RabbitMQConnectionManager \<Rightarrow> Message \<Rightarrow> string option \<Rightarrow> broker \<Rightarrow> (error + unit) \<times> broker" where
  "cm_publish self message rk b =
     (if reachable b
      then (Inr (),
            b\<lparr>published := published b @ [(message, or_else rk (routing_key self))],
              interactions := Suc (interactions b)\<rparr>)
      else (Inl (ConnectionError ''broker unreachable''),
            b\<lparr>interactions := Suc (interactions b)\<rparr>))"

section \<open>Publisher (app/messaging/publisher.py)\<close>

record NotificationPublisher =
  connection_manager :: RabbitMQConnectionManager
  default_routing_key :: string

definition publish ::
  "NotificationPublisher \<Rightarrow> NotificationMessage \<Rightarrow> string option \<Rightarrow> broker \<Rightarrow>
   (error + unit) \<times> broker" where
  "publish self message rk b =
     (let serialized = Utf8Json (model_dump_json message);
          amqp_message =
            \<lparr> body = serialized, content_type = ''application/json'', delivery_mode = 2,
              headers = [(''event_type'', NotificationMessage.event_type message),
                         (''source'', source message)] \<rparr>;
          target_routing_key = or_else rk (default_routing_key self)
      in cm_publish (connection_manager self) amqp_message (Some target_routing_key) b)"

section \<open>Dispatcher (app/services/dispatcher.py)\<close>

text \<open>
  The source's \<^verbatim>\<open>_send\<close> is a placeholder that logs the delivery and leaves the actual
  providers to be plugged in.  The provider is therefore an argument: it tells, for a
  notification and a channel, whether the delivery raises.  \<open>placeholder\<close> is the
  provider of the source as it stands, which never raises.
\<close>

type_synonym provider = "NotificationMessage \<Rightarrow> DeliveryChannel \<Rightarrow> error option"

definition placeholder :: provider where
  "placeholder notification channel = None"

definition send :: "provider \<Rightarrow> NotificationMessage \<Rightarrow> DeliveryChannel \<Rightarrow> error + unit" where
  "send p notification channel =
     (case p notification channel of None \<Rightarrow> Inr () | Some e \<Rightarrow> Inl e)"

text \<open>
  \<^verbatim>\<open>asyncio.gather\<close> without \<^verbatim>\<open>return_exceptions\<close>: every awaitable is started, and
  the call raises when one of them raises.  The interleaving of the sends is not
  modelled; the exception reported is that of the first failing send in list order.
\<close>

fun gather :: "(error + unit) list \<Rightarrow> error + unit" where
  "gather [] = Inr ()"
| "gather (Inl e # rs) = Inl e"
| "gather (Inr u # rs) = gather rs"

text \<open>
  \<^verbatim>\<open>dispatch\<close> returns the channels on which a send was started, and the outcome.
\<close>

definition dispatch ::
  "provider \<Rightarrow> NotificationMessage \<Rightarrow> DeliveryChannel list \<times> (error + unit)" where
  "dispatch p notification =
     (let chans = or_else (NotificationMessage.channels notification) [EMAIL]
      in (chans, gather (map (send p notification) chans)))"

section \<open>Consumer (app/messaging/consumer.py)\<close>

text \<open>
  A delivery (\<^verbatim>\<open>aio_pika.IncomingMessage\<close>).  \<open>settled\<close> is \<open>None\<close> until the delivery
  is acknowledged or rejected; \<open>Rejected r\<close> carries the requeue flag.
\<close>

datatype disposition = Acked | Rejected bool

record IncomingMessage =
  body :: bytes
  redelivered :: bool
  settled :: "disposition option"

definition processed :: "IncomingMessage \<Rightarrow> bool" where
  "processed m = (settled m \<noteq> None)"

text \<open>
  The end of the library's processing scope,
  \<^verbatim>\<open>message.process(ignore_processed=True, requeue=r)\<close>, with \<^verbatim>\<open>reject_on_redelivered\<close>
  at its default \<^verbatim>\<open>False\<close>: a delivery already settled is left alone; otherwise it is
  acknowledged when the block ended normally and rejected with the flag \<open>r\<close> when the
  block raised.
\<close>

definition process_exit :: "bool \<Rightarrow> error + unit \<Rightarrow> IncomingMessage \<Rightarrow> IncomingMessage" where
  "process_exit r result m =
     (if processed m then m
      else case result of
             Inr u \<Rightarrow> m\<lparr>settled := Some Acked\<rparr>
           | Inl e \<Rightarrow> m\<lparr>settled := Some (Rejected r)\<rparr>)"

record NotificationConsumer =
  requeue_on_error :: bool

text \<open>
  What one call of \<^verbatim>\<open>_handle_message\<close> leaves behind: the delivery, the calls made to
  the dispatcher (the notification and the channels a send was started on), and the
  exception the handler re-raised, if any.
\<close>

record handled =
  delivery :: IncomingMessage
  dispatched :: "(NotificationMessage \<times> DeliveryChannel list) list"
  raised :: "error option"

definition try_block ::
  "provider \<Rightarrow> datetime \<Rightarrow> IncomingMessage \<Rightarrow>
   (NotificationMessage \<times> DeliveryChannel list) list \<times> (error + unit)" where
  "try_block p now message =
     (case json_loads (IncomingMessage.body message) of
        Inl e \<Rightarrow> ([], Inl e)
      | Inr doc \<Rightarrow>
          (case model_validate now doc of
             Inl e \<Rightarrow> ([], Inl e)
           | Inr notification \<Rightarrow>
               (let (sent, result) = dispatch p notification
                in ([(notification, sent)], result))))"

definition handle_message ::
  "NotificationConsumer \<Rightarrow> provider \<Rightarrow> datetime \<Rightarrow> IncomingMessage \<Rightarrow> handled" where
  "handle_message self p now message =
     (let (calls, result) = try_block p now message
      in \<lparr> delivery = process_exit (requeue_on_error self) result message,
           dispatched = calls,
           raised = (case result of Inl e \<Rightarrow> Some e | Inr u \<Rightarrow> None) \<rparr>)"

section \<open>Endpoint (app/api/v1/notifications.py)\<close>

text \<open>
  \<open>Accepted et\<close> is the body \<^verbatim>\<open>{"status": "accepted", "event_type": et}\<close> of the 202
  response.  \<open>is_ValueError\<close> is \<^verbatim>\<open>isinstance(exc, ValueError)\<close>: the validation and
  JSON errors are subclasses of \<^verbatim>\<open>ValueError\<close>.
\<close>

datatype response = Accepted string | HTTPException nat string

fun is_ValueError :: "error \<Rightarrow> bool" where
  "is_ValueError (ValueError s) = True"
| "is_ValueError (ValidationError s) = True"
| "is_ValueError JSONDecodeError = True"
| "is_ValueError (ConnectionError s) = False"
| "is_ValueError (SendError c) = False"

fun str_of :: "error \<Rightarrow> string" where
  "str_of (ValueError s) = s"
| "str_of (ValidationError s) = s"
| "str_of JSONDecodeError = ''Expecting value''"
| "str_of (ConnectionError s) = s"
| "str_of (SendError c) = DeliveryChannel_value c"

definition http_error :: "error \<Rightarrow> response" where
  "http_error exc =
     (if is_ValueError exc then HTTPException 422 (str_of exc)
      else HTTPException 500 (''Failed to enqueue notification: '' @ str_of exc))"

definition enqueue_notification ::
  "Settings \<Rightarrow> NotificationOrchestrator \<Rightarrow> NotificationPublisher \<Rightarrow> datetime \<Rightarrow>
   NotificationRequest \<Rightarrow> broker \<Rightarrow> response \<times> broker" where
  "enqueue_notification settings orchestrator publisher now request b =
     (case prepare_message orchestrator settings request now of
        Inl e \<Rightarrow> (http_error e, b)
      | Inr message \<Rightarrow>
          (case publish publisher message None b of
             (Inl e, b') \<Rightarrow> (http_error e, b')
           | (Inr u, b') \<Rightarrow> (Accepted (NotificationMessage.event_type message), b')))"

section \<open>Wiring (app/dependencies.py)\<close>

definition get_connection_manager :: "Settings \<Rightarrow> RabbitMQConnectionManager" where
  "get_connection_manager settings = \<lparr> routing_key = rabbitmq_routing_key settings \<rparr>"

definition get_rule_engine :: NotificationRuleEngine where
  "get_rule_engine = NotificationRuleEngine_init None"

definition get_notification_orchestrator :: NotificationOrchestrator where
  "get_notification_orchestrator = \<lparr> rule_engine = get_rule_engine \<rparr>"

definition get_notification_consumer :: "Settings \<Rightarrow> NotificationConsumer" where
  "get_notification_consumer settings =
     \<lparr> requeue_on_error = rabbitmq_requeue_on_error settings \<rparr>"

definition get_publisher :: "Settings \<Rightarrow> NotificationPublisher" where
  "get_publisher settings =
     \<lparr> connection_manager = get_connection_manager settings,
       default_routing_key = rabbitmq_publish_routing_key settings \<rparr>"

section \<open>Sample inputs\<close>

text \<open>The requests of scenarios A, B and C of the specification, and sample values.\<close>

definition request_of ::
  "string \<Rightarrow> RoleType \<Rightarrow> string list \<Rightarrow> RoleType list option \<Rightarrow> DeliveryChannel list option \<Rightarrow>
   NotificationRequest" where
  "request_of et ar rs rr cs =
     \<lparr> NotificationRequest.event_type = et, NotificationRequest.actor_role = ar,
       NotificationRequest.recipients = rs, NotificationRequest.recipient_roles = rr,
       NotificationRequest.channels = cs, NotificationRequest.subject = None,
       NotificationRequest.body = None, NotificationRequest.metadata = [] \<rparr>"

definition scenario_A :: NotificationRequest where
  "scenario_A = request_of ''credential.issued'' ISSUER [''u1''] None None"

definition scenario_B :: NotificationRequest where
  "scenario_B = request_of ''unknown.event'' ISSUER [''u1''] None None"

definition scenario_C :: NotificationRequest where
  "scenario_C = request_of ''profile.viewed'' EMPLOYER [''u2''] None (Some [SMS])"

definition noon :: datetime where
  "noon = \<lparr> year = 2024, month = 2, day = 29, hour = 12, minute = 0, second = 5,
            microsecond = 0 \<rparr>"

definition later :: datetime where
  "later = \<lparr> year = 2024, month = 2, day = 29, hour = 12, minute = 0, second = 5,
             microsecond = 120034 \<rparr>"

definition sample_payload :: NotificationPayload where
  "sample_payload =
     \<lparr> NotificationPayload.subject = Some ''Hello'', NotificationPayload.body = None,
       NotificationPayload.metadata = [(''attempt'', JInt 2), (''tags'', JArr [JStr ''a'', JNull])] \<rparr>"

definition sample_message :: "DeliveryChannel list option \<Rightarrow> NotificationMessage" where
  "sample_message cs =
     \<lparr> NotificationMessage.event_type = ''credential.issued'', source = ''svc'',
       NotificationMessage.actor_role = ISSUER,
       NotificationMessage.recipient_roles = [LEARNER],
       NotificationMessage.recipients = [''u1''],
       NotificationMessage.channels = cs, payload = sample_payload, created_at = later \<rparr>"

definition idle_broker :: broker where
  "idle_broker = \<lparr> reachable = True, published = [], interactions = 0 \<rparr>"

definition fresh_delivery :: "bytes \<Rightarrow> IncomingMessage" where
  "fresh_delivery b = \<lparr> IncomingMessage.body = b, redelivered = False, settled = None \<rparr>"

definition sms_fails :: provider where
  "sms_fails notification channel = (if channel = SMS then Some (SendError SMS) else None)"

definition variant_A :: NotificationRequest where
  "variant_A = \<lparr> NotificationRequest.event_type = ''credential.issued'',
       NotificationRequest.actor_role = EMPLOYER,
       NotificationRequest.recipients = [''u7'', ''u8''],
       NotificationRequest.recipient_roles = Some [ISSUER],
       NotificationRequest.channels = None, NotificationRequest.subject = Some ''s'',
       NotificationRequest.body = Some ''b'',
       NotificationRequest.metadata = [(''k'', JBool True)] \<rparr>"

section \<open>Properties\<close>

subsection \<open>Rule engine and orchestrator\<close>

lemma removeAll_filter_conv: "removeAll x (filter P xs) = filter (\<lambda>y. y \<noteq> x \<and> P y) xs"
  by (induction xs) auto

lemma set_dedup_first_seen: "set (dedup_first_seen xs) = set xs"
  by (induction xs rule: dedup_first_seen.induct) auto

lemma distinct_dedup_first_seen: "distinct (dedup_first_seen xs)"
  by (induction xs rule: dedup_first_seen.induct) (auto simp: set_dedup_first_seen)

lemma fromkeys_into_dedup:
  "fromkeys_into keys xs = keys @ dedup_first_seen (filter (\<lambda>y. y \<notin> set keys) xs)"
proof (induction xs arbitrary: keys)
  case Nil
  show ?case by simp
next
  case (Cons x xs)
  show ?case
  proof (cases "x \<in> set keys")
    case True
    then show ?thesis using Cons.IH [of keys] by simp
  next
    case False
    have "filter (\<lambda>y. y \<notin> set (keys @ [x])) xs
            = removeAll x (filter (\<lambda>y. y \<notin> set keys) xs)"
      by (simp add: removeAll_filter_conv)
    then show ?thesis using False Cons.IH [of "keys @ [x]"] by simp
  qed
qed

lemma dict_fromkeys_dedup: "dict_fromkeys xs = dedup_first_seen xs"
  by (simp add: dict_fromkeys_def fromkeys_into_dedup)

lemma truthy_iff: "truthy v \<longleftrightarrow> (\<exists>x xs. v = Some (x # xs))"
  by (cases v rule: truthy.cases) simp_all

lemma not_truthy_iff: "\<not> truthy v \<longleftrightarrow> v = None \<or> v = Some []"
  by (cases v rule: truthy.cases) simp_all

text \<open>
  Claim C4.  \<open>resolve_channels\<close> follows the three steps, for every rule table: explicit
  non-empty channels come back deduplicated in first-seen order (the result is
  \<open>dedup_first_seen\<close> of them: distinct, with the same members), whatever rule matches;
  with no explicit channels (absent or empty) and a rule for the event type, the rule's
  \<open>default_channels\<close> come back unchanged; with neither, the result is \<open>[IN_APP]\<close>.
\<close>

theorem resolve_channels_three_steps:
  "(\<forall>cs. NotificationRequest.channels request = Some cs \<and> cs \<noteq> [] \<longrightarrow>
      resolve_channels self request = dedup_first_seen cs \<and>
      distinct (resolve_channels self request) \<and>
      set (resolve_channels self request) = set cs) \<and>
   (\<forall>rule. (NotificationRequest.channels request = None \<or>
             NotificationRequest.channels request = Some []) \<and>
            get_rule self (NotificationRequest.event_type request) = Some rule \<longrightarrow>
      resolve_channels self request = default_channels rule) \<and>
   ((NotificationRequest.channels request = None \<or>
     NotificationRequest.channels request = Some []) \<and>
    get_rule self (NotificationRequest.event_type request) = None \<longrightarrow>
      resolve_channels self request = [IN_APP])"
proof (intro conjI allI impI)
  fix cs
  assume a: "NotificationRequest.channels request = Some cs \<and> cs \<noteq> []"
  then have t: "truthy (NotificationRequest.channels request)"
    by (auto simp: truthy_iff neq_Nil_conv)
  from a t show r: "resolve_channels self request = dedup_first_seen cs"
    by (simp add: resolve_channels_def dict_fromkeys_dedup)
  show "distinct (resolve_channels self request)"
    by (simp add: r distinct_dedup_first_seen)
  show "set (resolve_channels self request) = set cs"
    by (simp add: r set_dedup_first_seen)
next
  fix rule
  assume "(NotificationRequest.channels request = None \<or>
           NotificationRequest.channels request = Some []) \<and>
          get_rule self (NotificationRequest.event_type request) = Some rule"
  then show "resolve_channels self request = default_channels rule"
    by (auto simp: resolve_channels_def)
next
  assume "(NotificationRequest.channels request = None \<or>
           NotificationRequest.channels request = Some []) \<and>
          get_rule self (NotificationRequest.event_type request) = None"
  then show "resolve_channels self request = [IN_APP]"
    by (auto simp: resolve_channels_def)
qed

lemmas sample_defs = scenario_A_def scenario_B_def scenario_C_def request_of_def
  get_rule_engine_def NotificationRuleEngine_init_def DEFAULT_RULES_def get_rule_def

text \<open>
  The three steps at concrete requests with the default rule table: explicit channels
  with a duplicate, scenario A (rule found) and scenario B (no rule).
\<close>

theorem resolve_channels_three_steps_witness:
  "resolve_channels get_rule_engine
     (request_of ''profile.viewed'' EMPLOYER [''u2''] None (Some [SMS, PUSH, SMS])) = [SMS, PUSH] \<and>
   resolve_channels get_rule_engine scenario_A = [EMAIL, IN_APP] \<and>
   resolve_channels get_rule_engine scenario_B = [IN_APP]"
proof -
  let ?r = "request_of ''profile.viewed'' EMPLOYER [''u2''] None (Some [SMS, PUSH, SMS])"
  have 1: "NotificationRequest.channels ?r = Some [SMS, PUSH, SMS] \<and> [SMS, PUSH, SMS] \<noteq> []"
    by (simp add: request_of_def)
  have 2: "(NotificationRequest.channels scenario_A = None \<or>
            NotificationRequest.channels scenario_A = Some []) \<and>
           get_rule get_rule_engine (NotificationRequest.event_type scenario_A)
             = Some \<lparr> NotificationRule.event_type = ''credential.issued'',
                      default_channels = [EMAIL, IN_APP], target_roles = [LEARNER],
                      description = ''Learner receives notification when issuer issues a credential.'' \<rparr>"
    by (simp add: sample_defs)
  have 3: "(NotificationRequest.channels scenario_B = None \<or>
            NotificationRequest.channels scenario_B = Some []) \<and>
           get_rule get_rule_engine (NotificationRequest.event_type scenario_B) = None"
    by (simp add: sample_defs)
  from 1 2 3 show ?thesis
    using resolve_channels_three_steps [of ?r get_rule_engine]
      resolve_channels_three_steps [of scenario_A get_rule_engine]
      resolve_channels_three_steps [of scenario_B get_rule_engine]
    by simp
qed

text \<open>
  Claim C5.  \<open>resolve_recipient_roles\<close> follows the same three steps with the empty
  list as the fallback: explicit non-empty roles deduplicated in first-seen order, else
  the matching rule's \<open>target_roles\<close>, else \<open>[]\<close>.  The function returns a list in
  every case; it has no error result.
\<close>

theorem resolve_recipient_roles_three_steps:
  "(\<forall>rs. NotificationRequest.recipient_roles request = Some rs \<and> rs \<noteq> [] \<longrightarrow>
      resolve_recipient_roles self request = dedup_first_seen rs \<and>
      distinct (resolve_recipient_roles self request) \<and>
      set (resolve_recipient_roles self request) = set rs) \<and>
   (\<forall>rule. (NotificationRequest.recipient_roles request = None \<or>
             NotificationRequest.recipient_roles request = Some []) \<and>
            get_rule self (NotificationRequest.event_type request) = Some rule \<longrightarrow>
      resolve_recipient_roles self request = target_roles rule) \<and>
   ((NotificationRequest.recipient_roles request = None \<or>
     NotificationRequest.recipient_roles request = Some []) \<and>
    get_rule self (NotificationRequest.event_type request) = None \<longrightarrow>
      resolve_recipient_roles self request = [])"
proof (intro conjI allI impI)
  fix rs
  assume a: "NotificationRequest.recipient_roles request = Some rs \<and> rs \<noteq> []"
  then have t: "truthy (NotificationRequest.recipient_roles request)"
    by (auto simp: truthy_iff neq_Nil_conv)
  from a t show r: "resolve_recipient_roles self request = dedup_first_seen rs"
    by (simp add: resolve_recipient_roles_def dict_fromkeys_dedup)
  show "distinct (resolve_recipient_roles self request)"
    by (simp add: r distinct_dedup_first_seen)
  show "set (resolve_recipient_roles self request) = set rs"
    by (simp add: r set_dedup_first_seen)
next
  fix rule
  assume "(NotificationRequest.recipient_roles request = None \<or>
           NotificationRequest.recipient_roles request = Some []) \<and>
          get_rule self (NotificationRequest.event_type request) = Some rule"
  then show "resolve_recipient_roles self request = target_roles rule"
    by (auto simp: resolve_recipient_roles_def)
next
  assume "(NotificationRequest.recipient_roles request = None \<or>
           NotificationRequest.recipient_roles request = Some []) \<and>
          get_rule self (NotificationRequest.event_type request) = None"
  then show "resolve_recipient_roles self request = []"
    by (auto simp: resolve_recipient_roles_def)
qed

text \<open>
  The three steps for roles at concrete requests with the default rule table.
\<close>

theorem resolve_recipient_roles_three_steps_witness:
  "resolve_recipient_roles get_rule_engine
     (request_of ''unknown.event'' ISSUER [''u1''] (Some [EMPLOYER, LEARNER, EMPLOYER]) None)
     = [EMPLOYER, LEARNER] \<and>
   resolve_recipient_roles get_rule_engine scenario_C = [LEARNER] \<and>
   resolve_recipient_roles get_rule_engine scenario_B = []"
proof -
  let ?r = "request_of ''unknown.event'' ISSUER [''u1''] (Some [EMPLOYER, LEARNER, EMPLOYER]) None"
  have 1: "NotificationRequest.recipient_roles ?r = Some [EMPLOYER, LEARNER, EMPLOYER] \<and>
           [EMPLOYER, LEARNER, EMPLOYER] \<noteq> []"
    by (simp add: request_of_def)
  have 2: "(NotificationRequest.recipient_roles scenario_C = None \<or>
            NotificationRequest.recipient_roles scenario_C = Some []) \<and>
           get_rule get_rule_engine (NotificationRequest.event_type scenario_C)
             = Some \<lparr> NotificationRule.event_type = ''profile.viewed'',
                      default_channels = [IN_APP], target_roles = [LEARNER],
                      description = ''Learner informed when an employer views their profile.'' \<rparr>"
    by (simp add: sample_defs)
  have 3: "(NotificationRequest.recipient_roles scenario_B = None \<or>
            NotificationRequest.recipient_roles scenario_B = Some []) \<and>
           get_rule get_rule_engine (NotificationRequest.event_type scenario_B) = None"
    by (simp add: sample_defs)
  from 1 2 3 show ?thesis
    using resolve_recipient_roles_three_steps [of ?r get_rule_engine]
      resolve_recipient_roles_three_steps [of scenario_C get_rule_engine]
      resolve_recipient_roles_three_steps [of scenario_B get_rule_engine]
    by simp
qed

text \<open>
  Claim C10.  For a fixed rule engine, two requests that agree on \<open>channels\<close> and
  \<open>event_type\<close> resolve to the same channels, and two requests that agree on
  \<open>recipient_roles\<close> and \<open>event_type\<close> resolve to the same roles: no other field of the
  request is read.
\<close>

theorem resolution_noninterference:
  "(NotificationRequest.channels r1 = NotificationRequest.channels r2 \<and>
    NotificationRequest.event_type r1 = NotificationRequest.event_type r2 \<longrightarrow>
      resolve_channels self r1 = resolve_channels self r2) \<and>
   (NotificationRequest.recipient_roles r1 = NotificationRequest.recipient_roles r2 \<and>
    NotificationRequest.event_type r1 = NotificationRequest.event_type r2 \<longrightarrow>
      resolve_recipient_roles self r1 = resolve_recipient_roles self r2)"
  by (simp add: resolve_channels_def resolve_recipient_roles_def)


text \<open>
  Scenario A and a request that differs from it in every field but \<open>channels\<close> and
  \<open>event_type\<close> resolve to the same channels; changing \<open>channels\<close> and \<open>actor_role\<close>
  leaves the resolved roles alone.
\<close>

theorem resolution_noninterference_witness:
  "resolve_channels get_rule_engine scenario_A = resolve_channels get_rule_engine variant_A \<and>
   resolve_channels get_rule_engine variant_A = [EMAIL, IN_APP] \<and>
   resolve_recipient_roles get_rule_engine scenario_A
     = resolve_recipient_roles get_rule_engine (scenario_A\<lparr>NotificationRequest.channels := Some [PUSH],
         NotificationRequest.actor_role := LEARNER\<rparr>)"
proof -
  have 1: "NotificationRequest.channels scenario_A = NotificationRequest.channels variant_A \<and>
           NotificationRequest.event_type scenario_A = NotificationRequest.event_type variant_A"
    by (simp add: scenario_A_def request_of_def variant_A_def)
  let ?v = "scenario_A\<lparr>NotificationRequest.channels := Some [PUSH],
              NotificationRequest.actor_role := LEARNER\<rparr>"
  have 2: "NotificationRequest.recipient_roles scenario_A = NotificationRequest.recipient_roles ?v \<and>
           NotificationRequest.event_type scenario_A = NotificationRequest.event_type ?v"
    by simp
  have 3: "resolve_channels get_rule_engine variant_A = [EMAIL, IN_APP]"
    by (simp add: resolve_channels_def variant_A_def sample_defs)
  have 4: "resolve_channels get_rule_engine scenario_A = resolve_channels get_rule_engine variant_A"
    using resolution_noninterference [of scenario_A variant_A get_rule_engine] 1 by blast
  have 5: "resolve_recipient_roles get_rule_engine scenario_A
             = resolve_recipient_roles get_rule_engine ?v"
    using resolution_noninterference [of scenario_A ?v get_rule_engine] 2 by blast
  from 3 4 5 show ?thesis by blast
qed

lemma init_empty_roles:
  "NotificationMessage_init et src ar [] rs cs p ts
     = Inl (ValidationError ''NotificationMessage requires at least one recipient role.'')"
  by (simp add: NotificationMessage_init_def validate_roles_def)

lemma validate_roles_Inr: "validate_roles m = Inr m' \<Longrightarrow> m' = m \<and> NotificationMessage.recipient_roles m \<noteq> []"
  by (auto simp: validate_roles_def split: if_splits)

lemma model_validate_roles:
  "model_validate now j = Inr m \<Longrightarrow> NotificationMessage.recipient_roles m \<noteq> []"
  by (auto simp: model_validate_def split: json.splits option.splits dest: validate_roles_Inr)

lemma resolve_channels_truthy: "resolve_channels self request \<noteq> [] \<Longrightarrow> truthy (Some (resolve_channels self request))"
  by (simp add: truthy_iff neq_Nil_conv)

lemma to_message_resolved:
  "roles \<noteq> [] \<Longrightarrow>
   to_message request src (Some chans) (Some roles) now =
     Inr \<lparr> NotificationMessage.event_type = NotificationRequest.event_type request, source = src,
           NotificationMessage.actor_role = NotificationRequest.actor_role request,
           NotificationMessage.recipient_roles = roles,
           NotificationMessage.recipients = NotificationRequest.recipients request,
           NotificationMessage.channels =
             (if chans \<noteq> [] then Some chans
              else if truthy (NotificationRequest.channels request)
                   then NotificationRequest.channels request else None),
           payload = \<lparr> NotificationPayload.subject = NotificationRequest.subject request,
                       NotificationPayload.body = NotificationRequest.body request,
                       NotificationPayload.metadata = NotificationRequest.metadata request \<rparr>,
           created_at = now \<rparr>"
  by (cases roles; cases chans)
     (simp_all add: to_message_def NotificationMessage_init_def validate_roles_def)

lemma prepare_message_Inr:
  "prepare_message self settings request now = Inr m \<Longrightarrow>
   resolve_recipient_roles (rule_engine self) request \<noteq> [] \<and>
   m = \<lparr> NotificationMessage.event_type = NotificationRequest.event_type request,
         source = app_name settings,
         NotificationMessage.actor_role = NotificationRequest.actor_role request,
         NotificationMessage.recipient_roles = resolve_recipient_roles (rule_engine self) request,
         NotificationMessage.recipients = NotificationRequest.recipients request,
         NotificationMessage.channels =
           (if resolve_channels (rule_engine self) request \<noteq> []
            then Some (resolve_channels (rule_engine self) request)
            else if truthy (NotificationRequest.channels request)
                 then NotificationRequest.channels request else Some [IN_APP]),
         payload = \<lparr> NotificationPayload.subject = NotificationRequest.subject request,
                     NotificationPayload.body = NotificationRequest.body request,
                     NotificationPayload.metadata = NotificationRequest.metadata request \<rparr>,
         created_at = now \<rparr>"
  by (auto simp: prepare_message_def Let_def to_message_resolved truthy_iff neq_Nil_conv
           split: if_splits)

lemma prepare_message_fails:
  "resolve_recipient_roles (rule_engine self) request = [] \<Longrightarrow>
   prepare_message self settings request now
     = Inl (ValueError (no_roles_message (NotificationRequest.event_type request)))"
  by (simp add: prepare_message_def)

lemma prepare_message_succeeds:
  "resolve_recipient_roles (rule_engine self) request \<noteq> [] \<Longrightarrow>
   \<exists>m. prepare_message self settings request now = Inr m"
  by (simp add: prepare_message_def Let_def to_message_resolved)

text \<open>
  Claim C1, amended.  Construction with empty \<open>recipient_roles\<close> fails for every
  combination of the other fields, so a constructed or validated message never has empty
  \<open>recipient_roles\<close>.  \<open>channels\<close> is optional and is not checked: with non-empty roles
  the construction succeeds and stores \<open>channels\<close> as given, absent and empty included.
  Every message \<open>prepare_message\<close> returns has non-empty roles and non-empty channels.
\<close>

theorem construction_requires_roles_only:
  "NotificationMessage_init et src ar [] rs cs p ts
     = Inl (ValidationError ''NotificationMessage requires at least one recipient role.'') \<and>
   (\<forall>m. NotificationMessage_init et src ar rr rs cs p ts = Inr m \<longrightarrow>
          NotificationMessage.recipient_roles m \<noteq> []) \<and>
   (rr \<noteq> [] \<longrightarrow>
      NotificationMessage_init et src ar rr rs cs p ts =
        Inr \<lparr> NotificationMessage.event_type = et, source = src,
              NotificationMessage.actor_role = ar,
              NotificationMessage.recipient_roles = rr,
              NotificationMessage.recipients = rs,
              NotificationMessage.channels = cs, payload = p, created_at = ts \<rparr>) \<and>
   (\<forall>m. model_validate now doc = Inr m \<longrightarrow> NotificationMessage.recipient_roles m \<noteq> []) \<and>
   (\<forall>m. prepare_message orchestrator settings request now = Inr m \<longrightarrow>
          NotificationMessage.recipient_roles m \<noteq> [] \<and>
          (\<exists>c cs'. NotificationMessage.channels m = Some (c # cs')))"
proof (intro conjI allI impI)
  show "NotificationMessage_init et src ar [] rs cs p ts
          = Inl (ValidationError ''NotificationMessage requires at least one recipient role.'')"
    by (rule init_empty_roles)
next
  fix m
  assume "NotificationMessage_init et src ar rr rs cs p ts = Inr m"
  then show "NotificationMessage.recipient_roles m \<noteq> []"
    by (auto simp: NotificationMessage_init_def dest: validate_roles_Inr)
next
  assume "rr \<noteq> []"
  then show "NotificationMessage_init et src ar rr rs cs p ts =
        Inr \<lparr> NotificationMessage.event_type = et, source = src,
              NotificationMessage.actor_role = ar,
              NotificationMessage.recipient_roles = rr,
              NotificationMessage.recipients = rs,
              NotificationMessage.channels = cs, payload = p, created_at = ts \<rparr>"
    by (simp add: NotificationMessage_init_def validate_roles_def)
next
  fix m
  assume "model_validate now doc = Inr m"
  then show "NotificationMessage.recipient_roles m \<noteq> []"
    by (rule model_validate_roles)
next
  fix m
  assume a: "prepare_message orchestrator settings request now = Inr m"
  note b = prepare_message_Inr [OF a]
  from b show "NotificationMessage.recipient_roles m \<noteq> []"
    by simp
  from b have "truthy (NotificationMessage.channels m)"
    by (auto simp: truthy_iff neq_Nil_conv)
  then show "\<exists>c cs'. NotificationMessage.channels m = Some (c # cs')"
    by (simp add: truthy_iff)
qed

text \<open>
  Claim C1 as stated fails: a message with absent channels, and one with an empty
  channel list, are constructed without error.
\<close>

theorem construction_absent_channels_counterexample:
  "NotificationMessage_init ''credential.issued'' ''svc'' ISSUER [LEARNER] [''u1''] None
     sample_payload later = Inr (sample_message None) \<and>
   NotificationMessage.channels (sample_message None) = None \<and>
   NotificationMessage_init ''credential.issued'' ''svc'' ISSUER [LEARNER] [''u1''] (Some [])
     sample_payload later = Inr (sample_message (Some [])) \<and>
   NotificationMessage.channels (sample_message (Some [])) = Some []"
  by (simp add: NotificationMessage_init_def validate_roles_def sample_message_def)

text \<open>
  The amended claim at a concrete construction and at scenario A.
\<close>

theorem construction_requires_roles_only_witness:
  "NotificationMessage_init ''credential.issued'' ''svc'' ISSUER [LEARNER] [''u1''] None
     sample_payload later = Inr (sample_message None) \<and>
   NotificationMessage.recipient_roles (sample_message None) \<noteq> [] \<and>
   (\<exists>m. prepare_message get_notification_orchestrator default_settings scenario_A noon = Inr m \<and>
        NotificationMessage.recipient_roles m \<noteq> [] \<and>
        (\<exists>c cs'. NotificationMessage.channels m = Some (c # cs')))"
proof -
  have 1: "[LEARNER] \<noteq> []" by simp
  have 2: "NotificationMessage_init ''credential.issued'' ''svc'' ISSUER [LEARNER] [''u1''] None
     sample_payload later = Inr (sample_message None)"
    using construction_requires_roles_only
      [of "''credential.issued''" "''svc''" ISSUER "[''u1'']" None sample_payload later "[LEARNER]"] 1
    by (simp add: sample_message_def)
  have 3: "NotificationMessage.recipient_roles (sample_message None) \<noteq> []"
    using construction_requires_roles_only
      [of "''credential.issued''" "''svc''" ISSUER "[''u1'']" None sample_payload later "[LEARNER]"] 2
    by blast
  have "resolve_recipient_roles (rule_engine get_notification_orchestrator) scenario_A \<noteq> []"
    by (simp add: resolve_recipient_roles_def get_notification_orchestrator_def sample_defs)
  then obtain m where 4: "prepare_message get_notification_orchestrator default_settings scenario_A noon = Inr m"
    using prepare_message_succeeds by blast
  have 5: "NotificationMessage.recipient_roles m \<noteq> [] \<and>
          (\<exists>c cs'. NotificationMessage.channels m = Some (c # cs'))"
    using construction_requires_roles_only
      [where orchestrator = get_notification_orchestrator and settings = default_settings
         and request = scenario_A and now = noon] 4
    by blast
  from 2 3 4 5 show ?thesis by blast
qed

text \<open>
  Claim C3.  When \<open>resolve_recipient_roles\<close> returns the empty list, \<open>prepare_message\<close>
  fails with the \<^verbatim>\<open>ValueError\<close> that reports the unresolved event type (the
  specification's PolicyResolutionError), and the endpoint answers 422 with the broker
  exactly as it was: nothing published, no call made to it.  A request with no explicit
  roles (absent or empty) and no rule for its event type is such a request.
\<close>

theorem unresolved_roles_fail_before_broker:
  "(resolve_recipient_roles (rule_engine orchestrator) request = [] \<longrightarrow>
      prepare_message orchestrator settings request now
        = Inl (ValueError (no_roles_message (NotificationRequest.event_type request))) \<and>
      enqueue_notification settings orchestrator publisher now request b
        = (HTTPException 422 (no_roles_message (NotificationRequest.event_type request)), b)) \<and>
   ((NotificationRequest.recipient_roles request = None \<or>
     NotificationRequest.recipient_roles request = Some []) \<and>
    get_rule (rule_engine orchestrator) (NotificationRequest.event_type request) = None \<longrightarrow>
      resolve_recipient_roles (rule_engine orchestrator) request = [])"
proof (intro conjI impI)
  assume a: "resolve_recipient_roles (rule_engine orchestrator) request = []"
  show p: "prepare_message orchestrator settings request now
        = Inl (ValueError (no_roles_message (NotificationRequest.event_type request)))"
    by (rule prepare_message_fails [OF a])
  show "enqueue_notification settings orchestrator publisher now request b
        = (HTTPException 422 (no_roles_message (NotificationRequest.event_type request)), b)"
    by (simp add: enqueue_notification_def p http_error_def)
next
  assume "(NotificationRequest.recipient_roles request = None \<or>
     NotificationRequest.recipient_roles request = Some []) \<and>
    get_rule (rule_engine orchestrator) (NotificationRequest.event_type request) = None"
  then show "resolve_recipient_roles (rule_engine orchestrator) request = []"
    by (auto simp: resolve_recipient_roles_def)
qed

text \<open>
  Scenario B with the default wiring: the failure, and the untouched idle broker.
\<close>

theorem unresolved_roles_fail_before_broker_witness:
  "prepare_message get_notification_orchestrator default_settings scenario_B noon
     = Inl (ValueError (no_roles_message ''unknown.event'')) \<and>
   enqueue_notification default_settings get_notification_orchestrator
       (get_publisher default_settings) noon scenario_B idle_broker
     = (HTTPException 422 (no_roles_message ''unknown.event''), idle_broker) \<and>
   published idle_broker = [] \<and> interactions idle_broker = 0"
proof -
  have 1: "(NotificationRequest.recipient_roles scenario_B = None \<or>
     NotificationRequest.recipient_roles scenario_B = Some []) \<and>
    get_rule (rule_engine get_notification_orchestrator) (NotificationRequest.event_type scenario_B) = None"
    by (simp add: get_notification_orchestrator_def sample_defs)
  have 2: "resolve_recipient_roles (rule_engine get_notification_orchestrator) scenario_B = []"
    using unresolved_roles_fail_before_broker
      [where orchestrator = get_notification_orchestrator and request = scenario_B] 1
    by blast
  have 3: "NotificationRequest.event_type scenario_B = ''unknown.event''"
    by (simp add: scenario_B_def request_of_def)
  have 4: "prepare_message get_notification_orchestrator default_settings scenario_B noon
     = Inl (ValueError (no_roles_message ''unknown.event'')) \<and>
   enqueue_notification default_settings get_notification_orchestrator
       (get_publisher default_settings) noon scenario_B idle_broker
     = (HTTPException 422 (no_roles_message ''unknown.event''), idle_broker)"
    using unresolved_roles_fail_before_broker
      [where orchestrator = get_notification_orchestrator and request = scenario_B
         and settings = default_settings and now = noon
         and publisher = "get_publisher default_settings" and b = idle_broker] 2
    unfolding 3 by blast
  have 5: "published idle_broker = [] \<and> interactions idle_broker = 0"
    by (simp add: idle_broker_def)
  from 4 5 show ?thesis by blast
qed



subsection \<open>Wire format, publisher, dispatcher and consumer\<close>



















lemma publish_reachable:
  "reachable b \<Longrightarrow>
   publish self message rk b =
     (Inr (),
      b\<lparr>published := published b @
           [(\<lparr> Message.body = Utf8Json (model_dump_json message),
                content_type = ''application/json'', delivery_mode = 2,
                headers = [(''event_type'', NotificationMessage.event_type message),
                           (''source'', source message)] \<rparr>,
             or_else (Some (or_else rk (default_routing_key self)))
               (routing_key (connection_manager self)))],
        interactions := Suc (interactions b)\<rparr>)"
  by (simp add: publish_def cm_publish_def Let_def)









lemma gather_fails_iff: "isl (gather rs) \<longleftrightarrow> (\<exists>r \<in> set rs. isl r)"
  by (induction rs rule: gather.induct) simp_all

lemma gather_ok: "\<not> isl (gather rs) \<Longrightarrow> gather rs = Inr ()"
  by (cases "gather rs") simp_all

text \<open>
  Claim C8.  \<open>dispatch\<close> starts a send on each channel of the message, on \<open>[EMAIL]\<close>
  alone when the channel list is absent or empty; it fails exactly when one of these
  sends fails, and returns normally when all of them succeed.
\<close>

theorem dispatch_all_or_nothing:
  "fst (dispatch p notification)
     = (case NotificationMessage.channels notification of
          Some (c # cs) \<Rightarrow> c # cs | _ \<Rightarrow> [EMAIL]) \<and>
   (isl (snd (dispatch p notification)) \<longleftrightarrow>
      (\<exists>c \<in> set (fst (dispatch p notification)). isl (send p notification c))) \<and>
   ((\<forall>c \<in> set (fst (dispatch p notification)). send p notification c = Inr ()) \<longrightarrow>
      snd (dispatch p notification) = Inr ()) \<and>
   (NotificationMessage.channels notification = None \<or>
    NotificationMessage.channels notification = Some [] \<longrightarrow>
      fst (dispatch p notification) = [EMAIL])"
proof (intro conjI impI)
  show "fst (dispatch p notification)
     = (case NotificationMessage.channels notification of
          Some (c # cs) \<Rightarrow> c # cs | _ \<Rightarrow> [EMAIL])"
    by (simp add: dispatch_def Let_def split: option.splits list.splits)
  show iff: "isl (snd (dispatch p notification)) \<longleftrightarrow>
      (\<exists>c \<in> set (fst (dispatch p notification)). isl (send p notification c))"
    by (simp add: dispatch_def Let_def gather_fails_iff)
  {
    assume "\<forall>c \<in> set (fst (dispatch p notification)). send p notification c = Inr ()"
    then have "\<not> isl (snd (dispatch p notification))"
      unfolding iff by auto
    then show "snd (dispatch p notification) = Inr ()"
      by (simp add: dispatch_def Let_def gather_ok)
  }
  {
    assume "NotificationMessage.channels notification = None \<or>
      NotificationMessage.channels notification = Some []"
    then show "fst (dispatch p notification) = [EMAIL]"
      by (auto simp: dispatch_def Let_def)
  }
qed

text \<open>
  Two channels with a provider that fails on SMS, the same with the placeholder
  provider, and the default channel for absent and empty channel lists.
\<close>

theorem dispatch_all_or_nothing_witness:
  "dispatch sms_fails (sample_message (Some [EMAIL, SMS])) = ([EMAIL, SMS], Inl (SendError SMS)) \<and>
   dispatch placeholder (sample_message (Some [EMAIL, SMS])) = ([EMAIL, SMS], Inr ()) \<and>
   fst (dispatch sms_fails (sample_message None)) = [EMAIL] \<and>
   snd (dispatch sms_fails (sample_message (Some []))) = Inr ()"
proof -
  have 1: "dispatch sms_fails (sample_message (Some [EMAIL, SMS])) = ([EMAIL, SMS], Inl (SendError SMS))"
    by (simp add: dispatch_def sample_message_def send_def sms_fails_def)
  have 2: "\<forall>c \<in> set (fst (dispatch placeholder (sample_message (Some [EMAIL, SMS])))).
             send placeholder (sample_message (Some [EMAIL, SMS])) c = Inr ()"
    by (simp add: send_def placeholder_def)
  have 3: "snd (dispatch placeholder (sample_message (Some [EMAIL, SMS]))) = Inr ()"
    using dispatch_all_or_nothing [of placeholder "sample_message (Some [EMAIL, SMS])"] 2
    by blast
  have 4: "fst (dispatch placeholder (sample_message (Some [EMAIL, SMS]))) = [EMAIL, SMS]"
    using dispatch_all_or_nothing [of placeholder "sample_message (Some [EMAIL, SMS])"]
    by (simp add: sample_message_def)
  have 5: "NotificationMessage.channels (sample_message None) = None \<or>
           NotificationMessage.channels (sample_message None) = Some []"
    by (simp add: sample_message_def)
  have 6: "fst (dispatch sms_fails (sample_message None)) = [EMAIL]"
    using dispatch_all_or_nothing [of sms_fails "sample_message None"] 5 by blast
  have 7: "NotificationMessage.channels (sample_message (Some [])) = None \<or>
           NotificationMessage.channels (sample_message (Some [])) = Some []"
    by (simp add: sample_message_def)
  have 8: "fst (dispatch sms_fails (sample_message (Some []))) = [EMAIL]"
    using dispatch_all_or_nothing [of sms_fails "sample_message (Some [])"] 7 by blast
  have 9: "\<forall>c \<in> set (fst (dispatch sms_fails (sample_message (Some [])))).
             send sms_fails (sample_message (Some [])) c = Inr ()"
    unfolding 8 by (simp add: send_def sms_fails_def)
  have 10: "snd (dispatch sms_fails (sample_message (Some []))) = Inr ()"
    using dispatch_all_or_nothing [of sms_fails "sample_message (Some [])"] 9 by blast
  from 3 4 have "dispatch placeholder (sample_message (Some [EMAIL, SMS])) = ([EMAIL, SMS], Inr ())"
    by (simp add: prod_eq_iff)
  with 1 6 10 show ?thesis by blast
qed

text \<open>
  Claim C2, amended.  When the body does not decode, or the decoded document fails
  validation, the handler makes no call to the dispatcher, re-raises the error, and the
  delivery (unless it was settled already) is rejected with the consumer's configured
  flag \<open>requeue_on_error\<close>: without requeue only when that flag is false.
\<close>

theorem malformed_rejected_with_configured_flag:
  "json_loads (IncomingMessage.body message) = Inl e \<or>
   (\<exists>doc. json_loads (IncomingMessage.body message) = Inr doc \<and> model_validate now doc = Inl e) \<longrightarrow>
     dispatched (handle_message self p now message) = [] \<and>
     raised (handle_message self p now message) = Some e \<and>
     delivery (handle_message self p now message)
       = (if settled message = None
          then message\<lparr>settled := Some (Rejected (requeue_on_error self))\<rparr>
          else message)"
proof
  assume "json_loads (IncomingMessage.body message) = Inl e \<or>
   (\<exists>doc. json_loads (IncomingMessage.body message) = Inr doc \<and> model_validate now doc = Inl e)"
  then have "try_block p now message = ([], Inl e)"
    by (auto simp: try_block_def)
  then show "dispatched (handle_message self p now message) = [] \<and>
     raised (handle_message self p now message) = Some e \<and>
     delivery (handle_message self p now message)
       = (if settled message = None
          then message\<lparr>settled := Some (Rejected (requeue_on_error self))\<rparr>
          else message)"
    by (simp add: handle_message_def process_exit_def processed_def)
qed

text \<open>
  Claim C2 as stated fails: under the default settings a body that is not JSON is
  rejected with requeue.
\<close>

theorem malformed_requeued_counterexample:
  "json_loads (IncomingMessage.body (fresh_delivery (OtherBytes ''not json''))) = Inl JSONDecodeError \<and>
   settled (delivery (handle_message (get_notification_consumer default_settings) placeholder noon
      (fresh_delivery (OtherBytes ''not json'')))) = Some (Rejected True)"
  by (simp add: handle_message_def try_block_def json_loads_def process_exit_def processed_def
        fresh_delivery_def get_notification_consumer_def default_settings_def)

text \<open>
  A body that is not JSON with the flag off, and a document that fails validation with
  the default consumer.
\<close>

theorem malformed_rejected_with_configured_flag_witness:
  "dispatched (handle_message \<lparr> requeue_on_error = False \<rparr> sms_fails noon
      (fresh_delivery (OtherBytes ''not json''))) = [] \<and>
   delivery (handle_message \<lparr> requeue_on_error = False \<rparr> sms_fails noon
      (fresh_delivery (OtherBytes ''not json'')))
     = \<lparr> IncomingMessage.body = OtherBytes ''not json'', redelivered = False,
         settled = Some (Rejected False) \<rparr> \<and>
   raised (handle_message (get_notification_consumer default_settings) placeholder noon
      (fresh_delivery (Utf8Json (JObj [(''event_type'', JStr ''x'')]))))
     = Some (ValidationError ''validation error for NotificationMessage'') \<and>
   dispatched (handle_message (get_notification_consumer default_settings) placeholder noon
      (fresh_delivery (Utf8Json (JObj [(''event_type'', JStr ''x'')])))) = []"
proof -
  let ?d = "fresh_delivery (OtherBytes ''not json'')"
  let ?v = "fresh_delivery (Utf8Json (JObj [(''event_type'', JStr ''x'')]))"
  have 1: "json_loads (IncomingMessage.body ?d) = Inl JSONDecodeError"
    by (simp add: json_loads_def fresh_delivery_def)
  have 2: "\<exists>doc. json_loads (IncomingMessage.body ?v) = Inr doc \<and>
             model_validate noon doc = Inl (ValidationError ''validation error for NotificationMessage'')"
    by (simp add: json_loads_def fresh_delivery_def model_validate_def validate_fields_def)
  note a = malformed_rejected_with_configured_flag
    [of ?d JSONDecodeError noon "\<lparr> requeue_on_error = False \<rparr>" sms_fails, THEN mp, OF disjI1, OF 1]
  note b = malformed_rejected_with_configured_flag
    [of ?v "ValidationError ''validation error for NotificationMessage''" noon
       "get_notification_consumer default_settings" placeholder, THEN mp, OF disjI2, OF 2]
  have 3: "(if settled ?d = None then ?d\<lparr>settled := Some (Rejected (requeue_on_error \<lparr> requeue_on_error = False \<rparr>))\<rparr>
           else ?d)
         = \<lparr> IncomingMessage.body = OtherBytes ''not json'', redelivered = False,
             settled = Some (Rejected False) \<rparr>"
    by (simp add: fresh_delivery_def)
  from a b show ?thesis unfolding 3 by blast
qed

text \<open>
  Claim C9, amended.  \<open>publish\<close> is the connection manager's \<open>publish\<close> applied to
  the broker message that carries the serialized body, content type
  \<^verbatim>\<open>application/json\<close>, delivery mode 2 and the headers \<open>event_type\<close> and \<open>source\<close>, with
  the supplied routing key when it is given and not empty, and with the publisher's
  default routing key when it is absent or empty.  On a reachable broker exactly this
  message is appended to what the exchange accepted.
\<close>

theorem publish_hands_over:
  "publish self message rk =
     cm_publish (connection_manager self)
       \<lparr> Message.body = Utf8Json (model_dump_json message),
         content_type = ''application/json'', delivery_mode = 2,
         headers = [(''event_type'', NotificationMessage.event_type message),
                    (''source'', source message)] \<rparr>
       (Some (case rk of Some (c # cs) \<Rightarrow> c # cs | _ \<Rightarrow> default_routing_key self)) \<and>
   (\<forall>k. rk = Some k \<and> k \<noteq> [] \<longrightarrow>
      (case rk of Some (c # cs) \<Rightarrow> c # cs | _ \<Rightarrow> default_routing_key self) = k) \<and>
   (rk = None \<or> rk = Some [] \<longrightarrow>
      (case rk of Some (c # cs) \<Rightarrow> c # cs | _ \<Rightarrow> default_routing_key self)
        = default_routing_key self) \<and>
   (reachable b \<longrightarrow>
      publish self message rk b =
        (Inr (),
         b\<lparr>published := published b @
              [(\<lparr> Message.body = Utf8Json (model_dump_json message),
                   content_type = ''application/json'', delivery_mode = 2,
                   headers = [(''event_type'', NotificationMessage.event_type message),
                              (''source'', source message)] \<rparr>,
                or_else (Some (case rk of Some (c # cs) \<Rightarrow> c # cs
                               | _ \<Rightarrow> default_routing_key self))
                  (routing_key (connection_manager self)))],
           interactions := Suc (interactions b)\<rparr>))"
proof -
  have k: "or_else rk (default_routing_key self)
           = (case rk of Some (c # cs) \<Rightarrow> c # cs | _ \<Rightarrow> default_routing_key self)"
    by (cases rk rule: truthy.cases) simp_all
  have 1: "publish self message rk =
     cm_publish (connection_manager self)
       \<lparr> Message.body = Utf8Json (model_dump_json message),
         content_type = ''application/json'', delivery_mode = 2,
         headers = [(''event_type'', NotificationMessage.event_type message),
                    (''source'', source message)] \<rparr>
       (Some (case rk of Some (c # cs) \<Rightarrow> c # cs | _ \<Rightarrow> default_routing_key self))"
    by (rule ext) (simp add: publish_def Let_def k)
  have 2: "\<forall>k. rk = Some k \<and> k \<noteq> [] \<longrightarrow>
      (case rk of Some (c # cs) \<Rightarrow> c # cs | _ \<Rightarrow> default_routing_key self) = k"
    by (auto simp: neq_Nil_conv)
  have 3: "rk = None \<or> rk = Some [] \<longrightarrow>
      (case rk of Some (c # cs) \<Rightarrow> c # cs | _ \<Rightarrow> default_routing_key self)
        = default_routing_key self"
    by auto
  have 4: "reachable b \<longrightarrow>
      publish self message rk b =
        (Inr (),
         b\<lparr>published := published b @
              [(\<lparr> Message.body = Utf8Json (model_dump_json message),
                   content_type = ''application/json'', delivery_mode = 2,
                   headers = [(''event_type'', NotificationMessage.event_type message),
                              (''source'', source message)] \<rparr>,
                or_else (Some (case rk of Some (c # cs) \<Rightarrow> c # cs
                               | _ \<Rightarrow> default_routing_key self))
                  (routing_key (connection_manager self)))],
           interactions := Suc (interactions b)\<rparr>)"
    by (simp add: publish_reachable k)
  from 1 2 3 4 show ?thesis by (intro conjI)
qed

text \<open>
  Claim C9 as stated fails for a supplied routing key that is the empty string: the
  publisher hands the default key to the connection manager, and the exchange sees
  \<^verbatim>\<open>notifications.broadcast\<close>, where handing over the supplied key would have led to
  the manager's own key.
\<close>

theorem empty_routing_key_counterexample:
  "publish (get_publisher default_settings) (sample_message None) (Some '''')
     = cm_publish (get_connection_manager default_settings)
         \<lparr> Message.body = Utf8Json (model_dump_json (sample_message None)),
           content_type = ''application/json'', delivery_mode = 2,
           headers = [(''event_type'', ''credential.issued''), (''source'', ''svc'')] \<rparr>
         (Some ''notifications.broadcast'') \<and>
   map snd (published (snd (publish (get_publisher default_settings) (sample_message None)
      (Some '''') idle_broker))) = [''notifications.broadcast''] \<and>
   map snd (published (snd (cm_publish (get_connection_manager default_settings)
         \<lparr> Message.body = Utf8Json (model_dump_json (sample_message None)),
           content_type = ''application/json'', delivery_mode = 2,
           headers = [(''event_type'', ''credential.issued''), (''source'', ''svc'')] \<rparr>
         (Some '''') idle_broker))) = [''notifications.*'']"
proof (intro conjI)
  show "publish (get_publisher default_settings) (sample_message None) (Some '''')
     = cm_publish (get_connection_manager default_settings)
         \<lparr> Message.body = Utf8Json (model_dump_json (sample_message None)),
           content_type = ''application/json'', delivery_mode = 2,
           headers = [(''event_type'', ''credential.issued''), (''source'', ''svc'')] \<rparr>
         (Some ''notifications.broadcast'')"
    by (rule ext)
       (simp add: publish_def Let_def get_publisher_def default_settings_def sample_message_def)
  show "map snd (published (snd (publish (get_publisher default_settings) (sample_message None)
      (Some '''') idle_broker))) = [''notifications.broadcast'']"
    by (simp add: publish_def cm_publish_def Let_def get_publisher_def default_settings_def
          idle_broker_def)
  show "map snd (published (snd (cm_publish (get_connection_manager default_settings)
         \<lparr> Message.body = Utf8Json (model_dump_json (sample_message None)),
           content_type = ''application/json'', delivery_mode = 2,
           headers = [(''event_type'', ''credential.issued''), (''source'', ''svc'')] \<rparr>
         (Some '''') idle_broker))) = [''notifications.*'']"
    by (simp add: cm_publish_def get_connection_manager_def default_settings_def idle_broker_def)
qed

text \<open>
  Publishing on the idle broker with a supplied key and without one.
\<close>

theorem publish_hands_over_witness:
  "map snd (published (snd (publish (get_publisher default_settings) (sample_message None)
      (Some ''notifications.urgent'') idle_broker))) = [''notifications.urgent''] \<and>
   map snd (published (snd (publish (get_publisher default_settings) (sample_message None)
      None idle_broker))) = [''notifications.broadcast''] \<and>
   map (\<lambda>(msg, key). (delivery_mode msg, headers msg))
     (published (snd (publish (get_publisher default_settings) (sample_message None)
        None idle_broker)))
     = [(2, [(''event_type'', ''credential.issued''), (''source'', ''svc'')])]"
proof -
  let ?P = "get_publisher default_settings"
  let ?m = "sample_message None"
  have r: "reachable idle_broker" by (simp add: idle_broker_def)
  note a = publish_hands_over [of ?P ?m "Some ''notifications.urgent''" idle_broker,
      THEN conjunct2, THEN conjunct2, THEN conjunct2, THEN mp, OF r]
  note b = publish_hands_over [of ?P ?m None idle_broker,
      THEN conjunct2, THEN conjunct2, THEN conjunct2, THEN mp, OF r]
  have 1: "map snd (published (snd (publish ?P ?m (Some ''notifications.urgent'') idle_broker)))
           = [''notifications.urgent'']"
    unfolding a by (simp add: idle_broker_def)
  have 2: "map snd (published (snd (publish ?P ?m None idle_broker))) = [''notifications.broadcast'']"
    unfolding b by (simp add: idle_broker_def get_publisher_def default_settings_def)
  have 3: "map (\<lambda>(msg, key). (delivery_mode msg, headers msg))
             (published (snd (publish ?P ?m None idle_broker)))
           = [(2, [(''event_type'', ''credential.issued''), (''source'', ''svc'')])]"
    unfolding b by (simp add: idle_broker_def sample_message_def)
  from 1 2 3 show ?thesis by (intro conjI)
qed

end
